theory Spec2Isabelle
  imports Main
begin

section \<open>The translation bot: data model\<close>

text \<open>
  Go strings are byte sequences; they are modelled as \<^typ>\<open>string\<close>, a list of 8-bit
  characters, so a flag emoji is the eight bytes of its UTF-8 encoding. A Go \<^verbatim>\<open>error\<close>
  built by \<^verbatim>\<open>fmt.Errorf\<close> is modelled by its message text. A Go result
  \<^verbatim>\<open>(string, error)\<close> is a pair of the string and an optional error (\<open>None\<close> is
  \<^verbatim>\<open>nil\<close>).
\<close>

type_synonym error = string

record Config =
  DiscordToken :: string
  OpenAIToken :: string

record Message =
  Role :: string
  Content :: string

record OpenAIRequest =
  Model :: string
  Messages :: "Message list"

record Choice_Message =
  Choice_Content :: string

record Choice =
  Choice_Message :: Choice_Message

record OpenAIResponse =
  Choices :: "Choice list"

record DiscordHandler =
  config :: Config

subsection \<open>Types of the chat-platform and HTTP libraries\<close>

text \<open>
  The handler reads only a few fields of the library types. Each is a record of the fields
  that are read or written; the library calls themselves (message fetch, embed post, JSON
  encoding and decoding, the HTTP round trip) are parameters of the model.
\<close>

record User =
  ID :: string
  Username :: string
  Avatar :: string
  Discriminator :: string

record State =
  User :: User

record Emoji =
  Emoji_Name :: string

record MessageReactionAdd =
  UserID :: string
  Emoji :: Emoji
  ChannelID :: string
  MessageID :: string

record Discord_Message =
  Msg_Content :: string
  Msg_Author :: User

record MessageEmbedAuthor =
  Name :: string
  IconURL :: string

record MessageEmbedFooter =
  Text :: string

record MessageEmbed =
  Author :: MessageEmbedAuthor
  Description :: string
  Footer :: MessageEmbedFooter
  Color :: int

record Request =
  Method :: string
  URL :: string
  Header :: "string \<rightharpoonup> string list"
  Body :: string

record Response =
  StatusCode :: int
  Resp_Body :: string

text \<open>
  The session carries the bot's own identity and the two platform calls the handler makes:
  fetching a message by channel and message id, and posting an embed to a channel (only
  the error of the post is read). The handler runs on an open session: the pointers it
  follows (the session, its state and user, the event, the fetched message and its author,
  the configuration) are valid, so a field access is a record selection.
\<close>

record Session =
  State :: State
  ChannelMessage :: "string \<Rightarrow> string \<Rightarrow> error + Discord_Message"
  ChannelMessageSendEmbed :: "string \<Rightarrow> MessageEmbed \<Rightarrow> error option"

text \<open>
  The library functions used by the translation client: \<^verbatim>\<open>json.Marshal\<close>,
  \<^verbatim>\<open>http.NewRequest\<close>, \<^verbatim>\<open>client.Do\<close>, decoding the response body as JSON,
  and \<^verbatim>\<open>User.AvatarURL\<close>.
\<close>

record env =
  json_Marshal :: "OpenAIRequest \<Rightarrow> error + string"
  http_NewRequest :: "string \<Rightarrow> string \<Rightarrow> string \<Rightarrow> error + Request"
  client_Do :: "Request \<Rightarrow> error + Response"
  json_Decode :: "string \<Rightarrow> error + OpenAIResponse"
  AvatarURL :: "User \<Rightarrow> string \<Rightarrow> string"

text \<open>
  What handling an event does to the outside world, in order: log lines, the message
  fetch, the HTTP round trip, reading and closing the response body, and the embed post.
\<close>

datatype effect =
    Log_Printf string
  | Call_ChannelMessage string string
  | Call_client_Do Request
  | Body_Decode
  | Body_Close
  | Call_ChannelMessageSendEmbed string MessageEmbed

section \<open>The emoji-language mapping\<close>

text \<open>
  A flag emoji is a pair of regional-indicator code points U+1F1E6 .. U+1F1FF; the UTF-8
  encoding of U+1F1E6 + k is the four bytes F0 9F 87 (A6 + k). The keys are, in the order
  of the source: US, GB, ES, FR, DE, IT, JP, KR, CN, PT, RU.
\<close>

definition flag :: "char \<Rightarrow> char \<Rightarrow> string" where
  "flag a b = [CHR 0xF0, CHR 0x9F, CHR 0x87, a, CHR 0xF0, CHR 0x9F, CHR 0x87, b]"

definition flagToLang :: "string \<rightharpoonup> string" where
  "flagToLang = map_of
    [(flag (CHR 0xBA) (CHR 0xB8), ''English''),
     (flag (CHR 0xAC) (CHR 0xA7), ''English''),
     (flag (CHR 0xAA) (CHR 0xB8), ''Spanish''),
     (flag (CHR 0xAB) (CHR 0xB7), ''French''),
     (flag (CHR 0xA9) (CHR 0xAA), ''German''),
     (flag (CHR 0xAE) (CHR 0xB9), ''Italian''),
     (flag (CHR 0xAF) (CHR 0xB5), ''Japanese''),
     (flag (CHR 0xB0) (CHR 0xB7), ''Korean''),
     (flag (CHR 0xA8) (CHR 0xB3), ''Chinese''),
     (flag (CHR 0xB5) (CHR 0xB9), ''Portuguese''),
     (flag (CHR 0xB7) (CHR 0xBA), ''Russian'')]"

section \<open>The translation client\<close>

text \<open>The verb \<^verbatim>\<open>%d\<close> of \<^verbatim>\<open>fmt\<close>: an integer in decimal, with a minus sign when negative.\<close>

fun digits :: "nat \<Rightarrow> string" where
  "digits n = (if n < 10 then [char_of (48 + n)]
               else digits (n div 10) @ [char_of (48 + n mod 10)])"

declare digits.simps [simp del]

definition fmt_d :: "int \<Rightarrow> string" where
  "fmt_d i = (if i < 0 then CHR ''-'' # digits (nat (- i)) else digits (nat i))"

text \<open>Line 148: the instruction prompt.\<close>

definition prompt :: "string \<Rightarrow> string \<Rightarrow> string" where
  "prompt targetLang text =
     ''Translate the following text to '' @ targetLang
       @ ''. Only respond with the translation, nothing else: '' @ text"

text \<open>Lines 150 to 159: the completion request.\<close>

definition requestBody :: "string \<Rightarrow> string \<Rightarrow> OpenAIRequest" where
  "requestBody targetLang text =
     \<lparr>Model = ''gpt-3.5-turbo'',
      Messages = [\<lparr>Role = ''user'', Content = prompt targetLang text\<rparr>]\<rparr>"

text \<open>\<^verbatim>\<open>Header.Set\<close> replaces the values of a key by the single given value.\<close>

definition Header_Set :: "Request \<Rightarrow> string \<Rightarrow> string \<Rightarrow> Request" where
  "Header_Set req k v = req\<lparr>Header := (Header req)(k \<mapsto> [v])\<rparr>"

text \<open>
  The client returns the effects it had, the result string and the error. Every
  \<^verbatim>\<open>return\<close> of the source is one branch. The deferred close of the response body
  runs on every return after a successful round trip.
\<close>

definition translateWithOpenAI ::
  "env \<Rightarrow> string \<Rightarrow> string \<Rightarrow> string \<Rightarrow> effect list \<times> string \<times> error option" where
  "translateWithOpenAI e text targetLang openAIToken =
    (let logs = [Log_Printf (''Translating text: '' @ text),
                 Log_Printf (''Target language: '' @ targetLang)]
     in case json_Marshal e (requestBody targetLang text) of
          Inl err \<Rightarrow> (logs, '''', Some (''error marshaling request: '' @ err))
        | Inr jsonData \<Rightarrow>
     (case http_NewRequest e ''POST'' ''https://api.openai.com/v1/chat/completions'' jsonData of
          Inl err \<Rightarrow> (logs, '''', Some (''error creating request: '' @ err))
        | Inr req0 \<Rightarrow>
     (let req = Header_Set (Header_Set req0 ''Content-Type'' ''application/json'')
                  ''Authorization'' (''Bearer '' @ openAIToken)
      in case client_Do e req of
          Inl err \<Rightarrow>
            (logs @ [Call_client_Do req], '''', Some (''error making request: '' @ err))
        | Inr resp \<Rightarrow>
            if StatusCode resp \<noteq> 200 then
              (logs @ [Call_client_Do req, Body_Close], '''',
               Some (''unexpected status code: '' @ fmt_d (StatusCode resp)))
            else
              (case json_Decode e (Resp_Body resp) of
                 Inl err \<Rightarrow>
                   (logs @ [Call_client_Do req, Body_Decode, Body_Close], '''',
                    Some (''error decoding response: '' @ err))
               | Inr response \<Rightarrow>
                   if length (Choices response) = 0 then
                     (logs @ [Call_client_Do req, Body_Decode, Body_Close], '''',
                      Some ''no translation returned'')
                   else
                     (logs @ [Call_client_Do req, Body_Decode, Body_Close],
                      Choice_Content (Choice_Message (Choices response ! 0)), None)))))"

section \<open>The reaction router\<close>

definition reactionAdd ::
  "env \<Rightarrow> DiscordHandler \<Rightarrow> Session \<Rightarrow> MessageReactionAdd \<Rightarrow> effect list" where
  "reactionAdd e h s r =
    (if UserID r = ID (User (State s)) then []
     else case flagToLang (Emoji_Name (Emoji r)) of
       None \<Rightarrow> []
     | Some targetLang \<Rightarrow>
       (case ChannelMessage s (ChannelID r) (MessageID r) of
          Inl err \<Rightarrow>
            [Call_ChannelMessage (ChannelID r) (MessageID r),
             Log_Printf (''Error fetching message: '' @ err)]
        | Inr msg \<Rightarrow>
            if Msg_Content msg = '''' then [Call_ChannelMessage (ChannelID r) (MessageID r)]
            else
              (case translateWithOpenAI e (Msg_Content msg) targetLang (OpenAIToken (config h)) of
                 (tr, translation, Some err) \<Rightarrow>
                   Call_ChannelMessage (ChannelID r) (MessageID r) # tr
                     @ [Log_Printf (''Error translating text: '' @ err)]
               | (tr, translation, None) \<Rightarrow>
                   (let embed =
                      \<lparr>Author = \<lparr>Name = Username (Msg_Author msg),
                                 IconURL = AvatarURL e (Msg_Author msg) ''''\<rparr>,
                       Description = translation,
                       Footer = \<lparr>Text = ''Translated to '' @ targetLang\<rparr>,
                       Color = 0x00BFFF\<rparr>
                    in Call_ChannelMessage (ChannelID r) (MessageID r) # tr
                         @ [Call_ChannelMessageSendEmbed (ChannelID r) embed]
                         @ (case ChannelMessageSendEmbed s (ChannelID r) embed of
                              Some err \<Rightarrow> [Log_Printf (''Error sending translation: '' @ err)]
                            | None \<Rightarrow> [])))))"

section \<open>Auxiliary definitions\<close>

text \<open>Reading a decimal numeral back, used to show that \<^verbatim>\<open>%d\<close> loses nothing.\<close>

definition undigits :: "string \<Rightarrow> nat" where
  "undigits cs = foldl (\<lambda>a c. 10 * a + (of_char c - 48)) 0 cs"

text \<open>
  Test doubles for the library calls: an encoder that always succeeds, a request
  constructor that always succeeds, a translation service that answers every request with
  one fixed status and body, and a decoder that knows that one body.
\<close>

fun commas :: "string list \<Rightarrow> string" where
  "commas [] = []"
| "commas [x] = x"
| "commas (x # y # ys) = x @ '','' @ commas (y # ys)"

definition stub_Message :: "Message \<Rightarrow> string" where
  \<open>stub_Message m = ''{"role":"'' @ Role m @ ''","content":"'' @ Content m @ ''"}''\<close>

definition stub_json :: "OpenAIRequest \<Rightarrow> string" where
  \<open>stub_json rq =
     ''{"model":"'' @ Model rq @ ''","messages":['' @ commas (map stub_Message (Messages rq))
       @ '']}''\<close>

definition stub_Marshal :: "OpenAIRequest \<Rightarrow> error + string" where
  "stub_Marshal rq = Inr (stub_json rq)"

definition stub_NewRequest :: "string \<Rightarrow> string \<Rightarrow> string \<Rightarrow> error + Request" where
  "stub_NewRequest m u b = Inr \<lparr>Method = m, URL = u, Header = Map.empty, Body = b\<rparr>"

definition stub_env :: "int \<Rightarrow> string \<Rightarrow> error + OpenAIResponse \<Rightarrow> env" where
  "stub_env status body decoded =
     \<lparr>json_Marshal = stub_Marshal,
      http_NewRequest = stub_NewRequest,
      client_Do = (\<lambda>rq. Inr \<lparr>StatusCode = status, Resp_Body = body\<rparr>),
      json_Decode = (\<lambda>b. if b = body then decoded else Inl ''unexpected end of JSON input''),
      AvatarURL = (\<lambda>u size. ''https://cdn.example/avatars/'' @ ID u @ ''/'' @ Avatar u)\<rparr>"

text \<open>
  A session of the bot \<open>bot\<close> in which message \<open>M\<close> of channel \<open>C\<close> has the given
  content and the author Alice, and every post succeeds.
\<close>

definition stub_session :: "string \<Rightarrow> Session" where
  "stub_session content =
     \<lparr>State = \<lparr>User = \<lparr>ID = ''bot'', Username = ''salin'', Avatar = ''a0'',
                        Discriminator = ''0''\<rparr>\<rparr>,
      ChannelMessage = (\<lambda>c m. if c = ''C'' \<and> m = ''M''
         then Inr \<lparr>Msg_Content = content,
                   Msg_Author = \<lparr>ID = ''u7'', Username = ''Alice'', Avatar = ''a7'',
                                 Discriminator = ''0''\<rparr>\<rparr>
         else Inl ''HTTP 404 Not Found''),
      ChannelMessageSendEmbed = (\<lambda>c em. None)\<rparr>"

definition stub_handler :: DiscordHandler where
  "stub_handler = \<lparr>config = \<lparr>DiscordToken = ''dt'', OpenAIToken = ''sk-test''\<rparr>\<rparr>"

definition stub_reaction :: "string \<Rightarrow> string \<Rightarrow> MessageReactionAdd" where
  "stub_reaction user emoji =
     \<lparr>UserID = user, Emoji = \<lparr>Emoji_Name = emoji\<rparr>, ChannelID = ''C'', MessageID = ''M''\<rparr>"

text \<open>The stubbed service response of the end-to-end scenario, and what it decodes to.\<close>

definition hola_body :: string where
  \<open>hola_body = ''{"choices":[{"message":{"content":"Hola"}}]}''\<close>

definition hola_response :: OpenAIResponse where
  "hola_response = \<lparr>Choices = [\<lparr>Choice_Message = \<lparr>Choice_Content = ''Hola''\<rparr>\<rparr>]\<rparr>"

text \<open>A service response without candidates.\<close>

definition empty_body :: string where
  \<open>empty_body = ''{"choices":[]}''\<close>

text \<open>The thumbs-up emoji U+1F44D, which is not a flag.\<close>

definition thumbs_up :: string where
  "thumbs_up = [CHR 0xF0, CHR 0x9F, CHR 0x91, CHR 0x8D]"

section \<open>Decimal rendering is injective\<close>

lemma undigits_snoc: "undigits (cs @ [c]) = 10 * undigits cs + (of_char c - 48)"
  by (simp add: undigits_def)

lemma undigits_digits: "undigits (digits n) = n"
proof (induction n rule: digits.induct)
  case (1 n)
  show ?case
  proof (cases "n < 10")
    case True
    then have "digits n = [char_of (48 + n)]" by (simp add: digits.simps)
    moreover have "(48 + n) mod 256 = 48 + n" using True by simp
    ultimately show ?thesis by (simp add: undigits_def)
  next
    case False
    then have d: "digits n = digits (n div 10) @ [char_of (48 + n mod 10)]"
      by (subst digits.simps) simp
    have "(48 + n mod 10) mod 256 = 48 + n mod 10"
      by simp
    with 1 False d show ?thesis by (simp add: undigits_snoc)
  qed
qed

lemma digits_inj: "digits n = digits m \<Longrightarrow> n = m"
  by (metis undigits_digits)

lemma digit_char_not_minus: "k < 10 \<Longrightarrow> char_of (48 + k :: nat) \<noteq> CHR ''-''"
proof
  assume k: "k < 10" and eq: "char_of (48 + k) = CHR ''-''"
  have "(of_char (char_of (48 + k)) :: nat) = 48 + k" using k by simp
  with eq show False by simp
qed

lemma minus_notin_digits: "CHR ''-'' \<notin> set (digits n)"
proof (induction n rule: digits.induct)
  case (1 n)
  show ?case
  proof (cases "n < 10")
    case True
    then have "digits n = [char_of (48 + n)]" by (simp add: digits.simps)
    with digit_char_not_minus [OF True] show ?thesis by auto
  next
    case False
    then have d: "digits n = digits (n div 10) @ [char_of (48 + n mod 10)]"
      by (subst digits.simps) simp
    have "n mod 10 < 10" by simp
    then have "char_of (48 + n mod 10) \<noteq> CHR ''-''" by (rule digit_char_not_minus)
    with 1 False d show ?thesis by auto
  qed
qed

lemma fmt_d_inj: "fmt_d a = fmt_d b \<Longrightarrow> a = b"
proof -
  assume eq: "fmt_d a = fmt_d b"
  consider "a < 0" "b < 0" | "a < 0" "\<not> b < 0" | "\<not> a < 0" "b < 0" | "\<not> a < 0" "\<not> b < 0"
    by blast
  then show ?thesis
  proof cases
    case 1
    with eq have "digits (nat (- a)) = digits (nat (- b))" by (simp add: fmt_d_def)
    then have "nat (- a) = nat (- b)" by (rule digits_inj)
    with 1 show ?thesis by simp
  next
    case 2
    with eq have "CHR ''-'' # digits (nat (- a)) = digits (nat b)" by (simp add: fmt_d_def)
    then have "CHR ''-'' \<in> set (digits (nat b))" by (metis list.set_intros(1))
    then show ?thesis by (simp add: minus_notin_digits)
  next
    case 3
    with eq have "digits (nat a) = CHR ''-'' # digits (nat (- b))" by (simp add: fmt_d_def)
    then have "CHR ''-'' \<in> set (digits (nat a))" by (metis list.set_intros(1))
    then show ?thesis by (simp add: minus_notin_digits)
  next
    case 4
    with eq have "digits (nat a) = digits (nat b)" by (simp add: fmt_d_def)
    then have "nat a = nat b" by (rule digits_inj)
    with 4 show ?thesis by simp
  qed
qed

section \<open>The return paths of the client and of the router\<close>

text \<open>
  One lemma for each way the client can return once the request was built, and one for
  each way the router continues after the client returned.
\<close>

lemma translate_logs:  "\<exists>rest. fst (translateWithOpenAI e text targetLang tok) =
     Log_Printf (''Translating text: '' @ text) # Log_Printf (''Target language: '' @ targetLang) # rest"
  by (simp add: translateWithOpenAI_def Let_def split: sum.split)

lemma translate_marshal_error:
  "json_Marshal e (requestBody targetLang text) = Inl err \<Longrightarrow>
   translateWithOpenAI e text targetLang tok =
     ([Log_Printf (''Translating text: '' @ text), Log_Printf (''Target language: '' @ targetLang)],
      '''', Some (''error marshaling request: '' @ err))"
  by (simp add: translateWithOpenAI_def)

lemma translate_non200:
  assumes "json_Marshal e (requestBody targetLang text) = Inr d"
    and "http_NewRequest e ''POST'' ''https://api.openai.com/v1/chat/completions'' d = Inr rq0"
    and "client_Do e (Header_Set (Header_Set rq0 ''Content-Type'' ''application/json'')
           ''Authorization'' (''Bearer '' @ tok)) = Inr resp"
    and "StatusCode resp \<noteq> 200"
  shows "translateWithOpenAI e text targetLang tok =
     ([Log_Printf (''Translating text: '' @ text), Log_Printf (''Target language: '' @ targetLang),
       Call_client_Do (Header_Set (Header_Set rq0 ''Content-Type'' ''application/json'')
           ''Authorization'' (''Bearer '' @ tok)), Body_Close],
      '''', Some (''unexpected status code: '' @ fmt_d (StatusCode resp)))"
  using assms by (simp add: translateWithOpenAI_def)

lemma translate_decoded:
  assumes "json_Marshal e (requestBody targetLang text) = Inr d"
    and "http_NewRequest e ''POST'' ''https://api.openai.com/v1/chat/completions'' d = Inr rq0"
    and "client_Do e (Header_Set (Header_Set rq0 ''Content-Type'' ''application/json'')
           ''Authorization'' (''Bearer '' @ tok)) = Inr resp"
    and "StatusCode resp = 200"
    and "json_Decode e (Resp_Body resp) = Inr response"
  shows "translateWithOpenAI e text targetLang tok =
     ([Log_Printf (''Translating text: '' @ text), Log_Printf (''Target language: '' @ targetLang),
       Call_client_Do (Header_Set (Header_Set rq0 ''Content-Type'' ''application/json'')
           ''Authorization'' (''Bearer '' @ tok)), Body_Decode, Body_Close],
      (if length (Choices response) = 0 then ('''', Some ''no translation returned'')
       else (Choice_Content (Choice_Message (Choices response ! 0)), None)))"
  using assms by (simp add: translateWithOpenAI_def)

lemma translate_error_empty:
  "snd (snd (translateWithOpenAI e text targetLang tok)) \<noteq> None \<Longrightarrow>
   fst (snd (translateWithOpenAI e text targetLang tok)) = ''''"
  by (simp add: translateWithOpenAI_def Let_def split: sum.splits if_splits)

lemma reactionAdd_translate_error:
  assumes "UserID r \<noteq> ID (User (State s))"
    and "flagToLang (Emoji_Name (Emoji r)) = Some targetLang"
    and "ChannelMessage s (ChannelID r) (MessageID r) = Inr msg"
    and "Msg_Content msg \<noteq> ''''"
    and "translateWithOpenAI e (Msg_Content msg) targetLang (OpenAIToken (config h)) = (tr, translation, Some err)"
  shows "reactionAdd e h s r =
           Call_ChannelMessage (ChannelID r) (MessageID r) # tr
             @ [Log_Printf (''Error translating text: '' @ err)]"
  using assms by (simp add: reactionAdd_def)

lemma reactionAdd_translate_ok:
  assumes "UserID r \<noteq> ID (User (State s))"
    and "flagToLang (Emoji_Name (Emoji r)) = Some targetLang"
    and "ChannelMessage s (ChannelID r) (MessageID r) = Inr msg"
    and "Msg_Content msg \<noteq> ''''"
    and "translateWithOpenAI e (Msg_Content msg) targetLang (OpenAIToken (config h)) = (tr, translation, None)"
  shows "reactionAdd e h s r =
           Call_ChannelMessage (ChannelID r) (MessageID r) # tr
             @ [Call_ChannelMessageSendEmbed (ChannelID r)
                  \<lparr>Author = \<lparr>Name = Username (Msg_Author msg),
                             IconURL = AvatarURL e (Msg_Author msg) ''''\<rparr>,
                   Description = translation,
                   Footer = \<lparr>Text = ''Translated to '' @ targetLang\<rparr>,
                   Color = 0x00BFFF\<rparr>]
             @ (case ChannelMessageSendEmbed s (ChannelID r)
                  \<lparr>Author = \<lparr>Name = Username (Msg_Author msg),
                             IconURL = AvatarURL e (Msg_Author msg) ''''\<rparr>,
                   Description = translation,
                   Footer = \<lparr>Text = ''Translated to '' @ targetLang\<rparr>,
                   Color = 0x00BFFF\<rparr> of
                  Some err \<Rightarrow> [Log_Printf (''Error sending translation: '' @ err)]
                | None \<Rightarrow> [])"
  using assms by (simp add: reactionAdd_def Let_def)

lemma translate_no_send:
  "Call_ChannelMessageSendEmbed c em \<notin> set (fst (translateWithOpenAI e text targetLang tok))"
  by (simp add: translateWithOpenAI_def Let_def split: sum.splits)

section \<open>The router's filters\<close>

text \<open>
  Claim C1. When the emoji identifier of a reaction event is not a key of the
  emoji-language mapping, handling the event has no effect at all: no message fetch, no
  call of the translation service, no reply, and no log line.
\<close>

theorem reactionAdd_unsupported_emoji_noop:
  "flagToLang (Emoji_Name (Emoji r)) = None \<Longrightarrow> reactionAdd e h s r = []"
  by (simp add: reactionAdd_def)

text \<open>A thumbs-up reaction by a user other than the bot.\<close>

theorem reactionAdd_unsupported_emoji_noop_witness:
  "flagToLang (Emoji_Name (Emoji (stub_reaction ''u1'' thumbs_up))) = None
   \<and> UserID (stub_reaction ''u1'' thumbs_up) \<noteq> ID (User (State (stub_session ''Hello there'')))
   \<and> reactionAdd (stub_env 200 ''{}'' (Inr \<lparr>Choices = []\<rparr>)) stub_handler
        (stub_session ''Hello there'') (stub_reaction ''u1'' thumbs_up) = []"
proof -
  have h: "flagToLang (Emoji_Name (Emoji (stub_reaction ''u1'' thumbs_up))) = None"
    by (simp add: stub_reaction_def flagToLang_def flag_def thumbs_up_def)
  have u: "UserID (stub_reaction ''u1'' thumbs_up) \<noteq> ID (User (State (stub_session ''Hello there'')))"
    by (simp add: stub_reaction_def stub_session_def)
  show ?thesis
    using h u reactionAdd_unsupported_emoji_noop [OF h] by simp
qed

text \<open>
  Claim C2. When the reacting user id is the bot's own id, handling the event has no
  effect at all, whatever the emoji.
\<close>

theorem reactionAdd_self_noop:
  "UserID r = ID (User (State s)) \<Longrightarrow> reactionAdd e h s r = []"
  by (simp add: reactionAdd_def)

text \<open>The bot itself reacting with the flag of Spain, a supported emoji.\<close>

theorem reactionAdd_self_noop_witness:
  "UserID (stub_reaction ''bot'' (flag (CHR 0xAA) (CHR 0xB8))) = ID (User (State (stub_session ''Hello there'')))
   \<and> flagToLang (Emoji_Name (Emoji (stub_reaction ''bot'' (flag (CHR 0xAA) (CHR 0xB8))))) = Some ''Spanish''
   \<and> reactionAdd (stub_env 200 ''{}'' (Inr \<lparr>Choices = []\<rparr>)) stub_handler
        (stub_session ''Hello there'') (stub_reaction ''bot'' (flag (CHR 0xAA) (CHR 0xB8))) = []"
proof -
  have u: "UserID (stub_reaction ''bot'' (flag (CHR 0xAA) (CHR 0xB8))) = ID (User (State (stub_session ''Hello there'')))"
    by (simp add: stub_reaction_def stub_session_def)
  have l: "flagToLang (Emoji_Name (Emoji (stub_reaction ''bot'' (flag (CHR 0xAA) (CHR 0xB8))))) = Some ''Spanish''"
    by (simp add: stub_reaction_def flagToLang_def flag_def)
  show ?thesis
    using u l reactionAdd_self_noop [OF u] by simp
qed

text \<open>
  Claim C3. For a supported emoji and a fetched message whose content is the empty
  string, the only effect of handling the event is the fetch (and nothing at all when the
  reaction is the bot's own): the translation service is not called and no reply is posted.
\<close>

theorem reactionAdd_empty_content_noop:
  assumes "flagToLang (Emoji_Name (Emoji r)) = Some targetLang"
    and "ChannelMessage s (ChannelID r) (MessageID r) = Inr msg"
    and "Msg_Content msg = ''''"
  shows "reactionAdd e h s r =
           (if UserID r = ID (User (State s)) then []
            else [Call_ChannelMessage (ChannelID r) (MessageID r)])"
  using assms by (simp add: reactionAdd_def)

text \<open>A reaction with the flag of Spain on a message without text.\<close>

theorem reactionAdd_empty_content_noop_witness:
  "flagToLang (Emoji_Name (Emoji (stub_reaction ''u1'' (flag (CHR 0xAA) (CHR 0xB8))))) = Some ''Spanish''
   \<and> ChannelMessage (stub_session '''') ''C'' ''M''
       = Inr \<lparr>Msg_Content = '''',
              Msg_Author = \<lparr>ID = ''u7'', Username = ''Alice'', Avatar = ''a7'', Discriminator = ''0''\<rparr>\<rparr>
   \<and> reactionAdd (stub_env 200 ''{}'' (Inr \<lparr>Choices = []\<rparr>)) stub_handler
        (stub_session '''') (stub_reaction ''u1'' (flag (CHR 0xAA) (CHR 0xB8)))
       = [Call_ChannelMessage ''C'' ''M'']"
proof -
  let ?r = "stub_reaction ''u1'' (flag (CHR 0xAA) (CHR 0xB8))"
  let ?msg = "\<lparr>Msg_Content = '''',
              Msg_Author = \<lparr>ID = ''u7'', Username = ''Alice'', Avatar = ''a7'', Discriminator = ''0''\<rparr>\<rparr>"
  have l: "flagToLang (Emoji_Name (Emoji ?r)) = Some ''Spanish''"
    by (simp add: stub_reaction_def flagToLang_def flag_def)
  have f: "ChannelMessage (stub_session '''') (ChannelID ?r) (MessageID ?r) = Inr ?msg"
    by (simp add: stub_reaction_def stub_session_def)
  have c: "Msg_Content ?msg = ''''" by simp
  show ?thesis
    using l f reactionAdd_empty_content_noop [OF l f c, of "stub_env 200 ''{}'' (Inr \<lparr>Choices = []\<rparr>)" stub_handler]
    by (simp add: stub_reaction_def stub_session_def)
qed

section \<open>End to end\<close>

text \<open>
  Claim C4. A reaction with the flag of Spain by a user other than the bot, on a message
  with content \<open>Hello there\<close> and author \<open>Alice\<close>: the client is called with
  \<open>Hello there\<close>, \<open>Spanish\<close> and the configured credential; when the service answers
  200 with the body \<open>hola_body\<close>, decoded as one candidate \<open>Hola\<close>, the client
  returns \<open>Hola\<close> and the router posts, to the channel of the reaction, the embed with
  description \<open>Hola\<close>, footer \<open>Translated to Spanish\<close> and author name \<open>Alice\<close>.
  The effects are the fetch, those of that client call, the post, and a log line if the post
  fails.
\<close>

theorem end_to_end_spanish:
  assumes self: "UserID r \<noteq> ID (User (State s))"
    and emoji: "Emoji_Name (Emoji r) = flag (CHR 0xAA) (CHR 0xB8)"
    and fetch: "ChannelMessage s (ChannelID r) (MessageID r) = Inr msg"
    and content: "Msg_Content msg = ''Hello there''"
    and author: "Username (Msg_Author msg) = ''Alice''"
    and marshal: "json_Marshal e (requestBody ''Spanish'' ''Hello there'') = Inr d"
    and new: "http_NewRequest e ''POST'' ''https://api.openai.com/v1/chat/completions'' d = Inr rq0"
    and do: "client_Do e (Header_Set (Header_Set rq0 ''Content-Type'' ''application/json'')
               ''Authorization'' (''Bearer '' @ OpenAIToken (config h))) = Inr resp"
    and status: "StatusCode resp = 200"
    and body: "Resp_Body resp = hola_body"
    and decode: "json_Decode e hola_body = Inr hola_response"
  shows "snd (translateWithOpenAI e ''Hello there'' ''Spanish'' (OpenAIToken (config h)))
           = (''Hola'', None)
         \<and> reactionAdd e h s r =
             Call_ChannelMessage (ChannelID r) (MessageID r)
               # fst (translateWithOpenAI e ''Hello there'' ''Spanish'' (OpenAIToken (config h)))
               @ [Call_ChannelMessageSendEmbed (ChannelID r)
                    \<lparr>Author = \<lparr>Name = ''Alice'', IconURL = AvatarURL e (Msg_Author msg) ''''\<rparr>,
                     Description = ''Hola'',
                     Footer = \<lparr>Text = ''Translated to Spanish''\<rparr>,
                     Color = 0x00BFFF\<rparr>]
               @ (case ChannelMessageSendEmbed s (ChannelID r)
                    \<lparr>Author = \<lparr>Name = ''Alice'', IconURL = AvatarURL e (Msg_Author msg) ''''\<rparr>,
                     Description = ''Hola'',
                     Footer = \<lparr>Text = ''Translated to Spanish''\<rparr>,
                     Color = 0x00BFFF\<rparr> of
                    Some err \<Rightarrow> [Log_Printf (''Error sending translation: '' @ err)]
                  | None \<Rightarrow> [])"
proof -
  let ?tok = "OpenAIToken (config h)"
  have lang: "flagToLang (Emoji_Name (Emoji r)) = Some ''Spanish''"
    using emoji by (simp add: flagToLang_def flag_def)
  have dec: "json_Decode e (Resp_Body resp) = Inr hola_response"
    using body decode by simp
  have t: "translateWithOpenAI e ''Hello there'' ''Spanish'' ?tok =
             (fst (translateWithOpenAI e ''Hello there'' ''Spanish'' ?tok), ''Hola'', None)"
    using translate_decoded [OF marshal new do status dec]
    by (simp add: hola_response_def)
  have ne: "Msg_Content msg \<noteq> ''''" using content by simp
  have t': "translateWithOpenAI e (Msg_Content msg) ''Spanish'' ?tok =
             (fst (translateWithOpenAI e ''Hello there'' ''Spanish'' ?tok), ''Hola'', None)"
    using t content by simp
  have "snd (translateWithOpenAI e ''Hello there'' ''Spanish'' ?tok) = (''Hola'', None)"
    by (subst t) simp
  moreover note reactionAdd_translate_ok [OF self lang fetch ne t']
  ultimately show ?thesis using author by simp
qed

text \<open>The scenario on the test doubles, with the whole effect trace.\<close>

theorem end_to_end_spanish_witness:
  "snd (translateWithOpenAI (stub_env 200 hola_body (Inr hola_response))
          ''Hello there'' ''Spanish'' (OpenAIToken (config stub_handler))) = (''Hola'', None)
   \<and> reactionAdd (stub_env 200 hola_body (Inr hola_response)) stub_handler
     (stub_session ''Hello there'') (stub_reaction ''u1'' (flag (CHR 0xAA) (CHR 0xB8)))
   = [Call_ChannelMessage ''C'' ''M'',
      Log_Printf ''Translating text: Hello there'',
      Log_Printf ''Target language: Spanish'',
      Call_client_Do
        \<lparr>Method = ''POST'', URL = ''https://api.openai.com/v1/chat/completions'',
         Header = [''Content-Type'' \<mapsto> [''application/json''],
                   ''Authorization'' \<mapsto> [''Bearer sk-test'']],
         Body = stub_json (requestBody ''Spanish'' ''Hello there'')\<rparr>,
      Body_Decode, Body_Close,
      Call_ChannelMessageSendEmbed ''C''
        \<lparr>Author = \<lparr>Name = ''Alice'', IconURL = ''https://cdn.example/avatars/u7/a7''\<rparr>,
         Description = ''Hola'', Footer = \<lparr>Text = ''Translated to Spanish''\<rparr>,
         Color = 0x00BFFF\<rparr>]"
proof -
  let ?e = "stub_env 200 hola_body (Inr hola_response)"
  let ?s = "stub_session ''Hello there''"
  let ?r = "stub_reaction ''u1'' (flag (CHR 0xAA) (CHR 0xB8))"
  let ?msg = "\<lparr>Msg_Content = ''Hello there'',
               Msg_Author = \<lparr>ID = ''u7'', Username = ''Alice'', Avatar = ''a7'',
                             Discriminator = ''0''\<rparr>\<rparr>"
  let ?d = "stub_json (requestBody ''Spanish'' ''Hello there'')"
  let ?rq0 = "\<lparr>Method = ''POST'', URL = ''https://api.openai.com/v1/chat/completions'',
               Header = Map.empty, Body = ?d\<rparr>"
  let ?resp = "\<lparr>StatusCode = 200, Resp_Body = hola_body\<rparr>"
  have 1: "UserID ?r \<noteq> ID (User (State ?s))"
    by (simp add: stub_reaction_def stub_session_def)
  have 2: "Emoji_Name (Emoji ?r) = flag (CHR 0xAA) (CHR 0xB8)"
    by (simp add: stub_reaction_def)
  have 3: "ChannelMessage ?s (ChannelID ?r) (MessageID ?r) = Inr ?msg"
    by (simp add: stub_reaction_def stub_session_def)
  have 4: "Msg_Content ?msg = ''Hello there''" by simp
  have 5: "Username (Msg_Author ?msg) = ''Alice''" by simp
  have 6: "json_Marshal ?e (requestBody ''Spanish'' ''Hello there'') = Inr ?d"
    by (simp add: stub_env_def stub_Marshal_def)
  have 7: "http_NewRequest ?e ''POST'' ''https://api.openai.com/v1/chat/completions'' ?d = Inr ?rq0"
    by (simp add: stub_env_def stub_NewRequest_def)
  have 8: "client_Do ?e (Header_Set (Header_Set ?rq0 ''Content-Type'' ''application/json'')
               ''Authorization'' (''Bearer '' @ OpenAIToken (config stub_handler))) = Inr ?resp"
    by (simp add: stub_env_def)
  have 9: "StatusCode ?resp = 200" by simp
  have 10: "Resp_Body ?resp = hola_body" by simp
  have 11: "json_Decode ?e hola_body = Inr hola_response"
    by (simp add: stub_env_def)
  have tr: "fst (translateWithOpenAI ?e ''Hello there'' ''Spanish'' (OpenAIToken (config stub_handler)))
      = [Log_Printf ''Translating text: Hello there'',
         Log_Printf ''Target language: Spanish'',
         Call_client_Do (Header_Set (Header_Set ?rq0 ''Content-Type'' ''application/json'')
               ''Authorization'' (''Bearer '' @ OpenAIToken (config stub_handler))),
         Body_Decode, Body_Close]"
    by (simp add: translate_decoded [OF 6 7 8 9, of hola_response] 11)
  have hs: "Header_Set (Header_Set ?rq0 ''Content-Type'' ''application/json'')
               ''Authorization'' (''Bearer '' @ OpenAIToken (config stub_handler))
           = \<lparr>Method = ''POST'', URL = ''https://api.openai.com/v1/chat/completions'',
         Header = [''Content-Type'' \<mapsto> [''application/json''],
                   ''Authorization'' \<mapsto> [''Bearer sk-test'']],
         Body = ?d\<rparr>"
    by (simp add: Header_Set_def stub_handler_def)
  have misc: "ChannelID ?r = ''C''" "MessageID ?r = ''M''"
    "AvatarURL ?e (Msg_Author ?msg) '''' = ''https://cdn.example/avatars/u7/a7''"
    "\<And>c em. ChannelMessageSendEmbed ?s c em = None"
    by (simp_all add: stub_reaction_def stub_env_def stub_session_def)
  note E = end_to_end_spanish [OF 1 2 3 4 5 6 7 8 9 10 11, THEN conjunct2]
  have "reactionAdd ?e stub_handler ?s ?r
     = [Call_ChannelMessage ''C'' ''M'',
      Log_Printf ''Translating text: Hello there'',
      Log_Printf ''Target language: Spanish'',
      Call_client_Do
        \<lparr>Method = ''POST'', URL = ''https://api.openai.com/v1/chat/completions'',
         Header = [''Content-Type'' \<mapsto> [''application/json''],
                   ''Authorization'' \<mapsto> [''Bearer sk-test'']],
         Body = ?d\<rparr>,
      Body_Decode, Body_Close,
      Call_ChannelMessageSendEmbed ''C''
        \<lparr>Author = \<lparr>Name = ''Alice'', IconURL = ''https://cdn.example/avatars/u7/a7''\<rparr>,
         Description = ''Hola'', Footer = \<lparr>Text = ''Translated to Spanish''\<rparr>,
         Color = 0x00BFFF\<rparr>]"
    unfolding E tr hs misc by simp
  with end_to_end_spanish [OF 1 2 3 4 5 6 7 8 9 10 11, THEN conjunct1]
  show ?thesis by (rule conjI)
qed

section \<open>The request built by the client\<close>

text \<open>
  Claim C5. For every source text and target language, the request the client builds has
  the fixed model identifier \<open>gpt-3.5-turbo\<close> and a message list of exactly one message,
  with role \<open>user\<close> and content the instruction prompt followed by the source text. That
  request is the one the client encodes: when encoding fails the client returns the
  encoding error, and when encoding and request construction succeed the request sent
  carries the encoding of exactly this request, with the two headers set.
\<close>

theorem translate_request_shape:
  "requestBody targetLang text =
     \<lparr>Model = ''gpt-3.5-turbo'',
      Messages = [\<lparr>Role = ''user'',
                   Content = ''Translate the following text to '' @ targetLang
                     @ ''. Only respond with the translation, nothing else: '' @ text\<rparr>]\<rparr>
   \<and> length (Messages (requestBody targetLang text)) = 1
   \<and> (\<forall>err. json_Marshal e (requestBody targetLang text) = Inl err \<longrightarrow>
         snd (translateWithOpenAI e text targetLang tok)
           = ('''', Some (''error marshaling request: '' @ err)))
   \<and> (\<forall>d rq0. json_Marshal e (requestBody targetLang text) = Inr d \<longrightarrow>
         http_NewRequest e ''POST'' ''https://api.openai.com/v1/chat/completions'' d = Inr rq0 \<longrightarrow>
         Call_client_Do (Header_Set (Header_Set rq0 ''Content-Type'' ''application/json'')
             ''Authorization'' (''Bearer '' @ tok))
           \<in> set (fst (translateWithOpenAI e text targetLang tok)))"
proof (intro conjI allI impI)
  show "requestBody targetLang text =
     \<lparr>Model = ''gpt-3.5-turbo'',
      Messages = [\<lparr>Role = ''user'',
                   Content = ''Translate the following text to '' @ targetLang
                     @ ''. Only respond with the translation, nothing else: '' @ text\<rparr>]\<rparr>"
    by (simp add: requestBody_def prompt_def)
  show "length (Messages (requestBody targetLang text)) = 1"
    by (simp add: requestBody_def)
next
  fix err
  assume "json_Marshal e (requestBody targetLang text) = Inl err"
  then show "snd (translateWithOpenAI e text targetLang tok)
           = ('''', Some (''error marshaling request: '' @ err))"
    by (simp add: translate_marshal_error)
next
  fix d rq0
  assume m: "json_Marshal e (requestBody targetLang text) = Inr d"
    and n: "http_NewRequest e ''POST'' ''https://api.openai.com/v1/chat/completions'' d = Inr rq0"
  then show "Call_client_Do (Header_Set (Header_Set rq0 ''Content-Type'' ''application/json'')
             ''Authorization'' (''Bearer '' @ tok))
           \<in> set (fst (translateWithOpenAI e text targetLang tok))"
    by (simp add: translateWithOpenAI_def Let_def split: sum.split)
qed

text \<open>The request for \<open>Hello there\<close> and \<open>Spanish\<close>, and its encoding on the wire.\<close>

theorem translate_request_shape_witness:
  "requestBody ''Spanish'' ''Hello there'' =
     \<lparr>Model = ''gpt-3.5-turbo'',
      Messages = [\<lparr>Role = ''user'',
                   Content = ''Translate the following text to Spanish. Only respond with the translation, nothing else: Hello there''\<rparr>]\<rparr>
   \<and> Call_client_Do
        \<lparr>Method = ''POST'', URL = ''https://api.openai.com/v1/chat/completions'',
         Header = [''Content-Type'' \<mapsto> [''application/json''],
                   ''Authorization'' \<mapsto> [''Bearer sk-test'']],
         Body = stub_json (requestBody ''Spanish'' ''Hello there'')\<rparr>
       \<in> set (fst (translateWithOpenAI (stub_env 200 hola_body (Inr hola_response))
                  ''Hello there'' ''Spanish'' ''sk-test''))"
proof -
  let ?e = "stub_env 200 hola_body (Inr hola_response)"
  let ?d = "stub_json (requestBody ''Spanish'' ''Hello there'')"
  let ?rq0 = "\<lparr>Method = ''POST'', URL = ''https://api.openai.com/v1/chat/completions'',
               Header = Map.empty, Body = ?d\<rparr>"
  note T = translate_request_shape [of "''Spanish''" "''Hello there''" ?e "''sk-test''"]
  have m: "json_Marshal ?e (requestBody ''Spanish'' ''Hello there'') = Inr ?d"
    by (simp add: stub_env_def stub_Marshal_def)
  have n: "http_NewRequest ?e ''POST'' ''https://api.openai.com/v1/chat/completions'' ?d = Inr ?rq0"
    by (simp add: stub_env_def stub_NewRequest_def)
  have hs: "Header_Set (Header_Set ?rq0 ''Content-Type'' ''application/json'')
               ''Authorization'' (''Bearer '' @ ''sk-test'')
           = \<lparr>Method = ''POST'', URL = ''https://api.openai.com/v1/chat/completions'',
         Header = [''Content-Type'' \<mapsto> [''application/json''],
                   ''Authorization'' \<mapsto> [''Bearer sk-test'']],
         Body = ?d\<rparr>"
    by (simp add: Header_Set_def)
  have a: "requestBody ''Spanish'' ''Hello there'' =
     \<lparr>Model = ''gpt-3.5-turbo'',
      Messages = [\<lparr>Role = ''user'',
                   Content = ''Translate the following text to Spanish. Only respond with the translation, nothing else: Hello there''\<rparr>]\<rparr>"
    using T [THEN conjunct1] by simp
  from T have "Call_client_Do (Header_Set (Header_Set ?rq0 ''Content-Type'' ''application/json'')
               ''Authorization'' (''Bearer '' @ ''sk-test''))
       \<in> set (fst (translateWithOpenAI ?e ''Hello there'' ''Spanish'' ''sk-test''))"
    using m n by blast
  then have b: "Call_client_Do
        \<lparr>Method = ''POST'', URL = ''https://api.openai.com/v1/chat/completions'',
         Header = [''Content-Type'' \<mapsto> [''application/json''],
                   ''Authorization'' \<mapsto> [''Bearer sk-test'']],
         Body = ?d\<rparr>
       \<in> set (fst (translateWithOpenAI ?e ''Hello there'' ''Spanish'' ''sk-test''))"
    unfolding hs .
  from a b show ?thesis by (rule conjI)
qed

text \<open>
  Claim C6. When two emoji identifiers are keys of the mapping with the same target
  language, then for every source text the prompts built for them are the same, target
  language phrase included; so are the requests, the client calls, and the whole handling
  of two reaction events that differ in the emoji only.
\<close>

theorem same_language_same_prompt:
  assumes "flagToLang emoji1 = Some lang1"
    and "flagToLang emoji2 = Some lang2"
    and "lang1 = lang2"
  shows "prompt lang1 text = prompt lang2 text
         \<and> take (length ''Translate the following text to '' + length lang1) (prompt lang1 text)
             = ''Translate the following text to '' @ lang2
         \<and> requestBody lang1 text = requestBody lang2 text
         \<and> translateWithOpenAI e text lang1 tok = translateWithOpenAI e text lang2 tok
         \<and> reactionAdd e h s (r\<lparr>Emoji := \<lparr>Emoji_Name = emoji1\<rparr>\<rparr>)
             = reactionAdd e h s (r\<lparr>Emoji := \<lparr>Emoji_Name = emoji2\<rparr>\<rparr>)"
  using assms
  by (simp add: reactionAdd_def prompt_def Let_def split: sum.split option.split prod.split)

text \<open>The flags of the United States and of the United Kingdom, both for English.\<close>

theorem same_language_same_prompt_witness:
  "flagToLang (flag (CHR 0xBA) (CHR 0xB8)) = Some ''English''
   \<and> flagToLang (flag (CHR 0xAC) (CHR 0xA7)) = Some ''English''
   \<and> flag (CHR 0xBA) (CHR 0xB8) \<noteq> flag (CHR 0xAC) (CHR 0xA7)
   \<and> prompt ''English'' ''Hello there''
       = ''Translate the following text to English. Only respond with the translation, nothing else: Hello there''
   \<and> reactionAdd (stub_env 200 hola_body (Inr hola_response)) stub_handler
         (stub_session ''Hello there'')
         ((stub_reaction ''u1'' [])\<lparr>Emoji := \<lparr>Emoji_Name = flag (CHR 0xBA) (CHR 0xB8)\<rparr>\<rparr>)
       = reactionAdd (stub_env 200 hola_body (Inr hola_response)) stub_handler
         (stub_session ''Hello there'')
         ((stub_reaction ''u1'' [])\<lparr>Emoji := \<lparr>Emoji_Name = flag (CHR 0xAC) (CHR 0xA7)\<rparr>\<rparr>)"
proof -
  have us: "flagToLang (flag (CHR 0xBA) (CHR 0xB8)) = Some ''English''"
    by (simp add: flagToLang_def flag_def)
  have gb: "flagToLang (flag (CHR 0xAC) (CHR 0xA7)) = Some ''English''"
    by (simp add: flagToLang_def flag_def)
  have ne: "flag (CHR 0xBA) (CHR 0xB8) \<noteq> flag (CHR 0xAC) (CHR 0xA7)"
    by (simp add: flag_def)
  have p: "prompt ''English'' ''Hello there''
       = ''Translate the following text to English. Only respond with the translation, nothing else: Hello there''"
    by (simp add: prompt_def)
  note S = same_language_same_prompt [OF us gb refl, of "''Hello there''"
      "stub_env 200 hola_body (Inr hola_response)" "''sk-test''" stub_handler
      "stub_session ''Hello there''" "stub_reaction ''u1'' []"]
  from S have "reactionAdd (stub_env 200 hola_body (Inr hola_response)) stub_handler
         (stub_session ''Hello there'')
         ((stub_reaction ''u1'' [])\<lparr>Emoji := \<lparr>Emoji_Name = flag (CHR 0xBA) (CHR 0xB8)\<rparr>\<rparr>)
       = reactionAdd (stub_env 200 hola_body (Inr hola_response)) stub_handler
         (stub_session ''Hello there'')
         ((stub_reaction ''u1'' [])\<lparr>Emoji := \<lparr>Emoji_Name = flag (CHR 0xAC) (CHR 0xA7)\<rparr>\<rparr>)"
    by blast
  with us gb ne p show ?thesis by blast
qed

section \<open>Errors of the client\<close>

text \<open>
  Claim C7. When the translation service answers the request with a status other than
  200, the client returns the empty string and the error
  \<open>unexpected status code: \<close> followed by the status in decimal; the status can be read
  back from the error, since no other status gives the same error text.
\<close>

theorem translate_status_error:
  assumes "json_Marshal e (requestBody targetLang text) = Inr d"
    and "http_NewRequest e ''POST'' ''https://api.openai.com/v1/chat/completions'' d = Inr rq0"
    and "client_Do e (Header_Set (Header_Set rq0 ''Content-Type'' ''application/json'')
           ''Authorization'' (''Bearer '' @ tok)) = Inr resp"
    and "StatusCode resp \<noteq> 200"
  shows "snd (translateWithOpenAI e text targetLang tok)
           = ('''', Some (''unexpected status code: '' @ fmt_d (StatusCode resp)))
         \<and> (\<forall>c. snd (snd (translateWithOpenAI e text targetLang tok))
                  = Some (''unexpected status code: '' @ fmt_d c) \<longrightarrow> c = StatusCode resp)"
proof -
  have t: "snd (translateWithOpenAI e text targetLang tok)
           = ('''', Some (''unexpected status code: '' @ fmt_d (StatusCode resp)))"
    by (simp add: translate_non200 [OF assms])
  have "c = StatusCode resp"
    if "snd (snd (translateWithOpenAI e text targetLang tok))
          = Some (''unexpected status code: '' @ fmt_d c)" for c
  proof -
    from that t have "fmt_d c = fmt_d (StatusCode resp)" by simp
    then show ?thesis by (rule fmt_d_inj)
  qed
  with t show ?thesis by blast
qed

text \<open>A service that answers 500.\<close>

theorem translate_status_error_witness:
  "snd (translateWithOpenAI (stub_env 500 ''Internal Server Error'' (Inl ''invalid character''))
          ''Hello there'' ''Spanish'' ''sk-test'')
     = ('''', Some ''unexpected status code: 500'')"
proof -
  let ?e = "stub_env 500 ''Internal Server Error'' (Inl ''invalid character'')"
  let ?d = "stub_json (requestBody ''Spanish'' ''Hello there'')"
  let ?rq0 = "\<lparr>Method = ''POST'', URL = ''https://api.openai.com/v1/chat/completions'',
               Header = Map.empty, Body = ?d\<rparr>"
  let ?resp = "\<lparr>StatusCode = 500, Resp_Body = ''Internal Server Error''\<rparr>"
  have m: "json_Marshal ?e (requestBody ''Spanish'' ''Hello there'') = Inr ?d"
    by (simp add: stub_env_def stub_Marshal_def)
  have n: "http_NewRequest ?e ''POST'' ''https://api.openai.com/v1/chat/completions'' ?d = Inr ?rq0"
    by (simp add: stub_env_def stub_NewRequest_def)
  have d: "client_Do ?e (Header_Set (Header_Set ?rq0 ''Content-Type'' ''application/json'')
               ''Authorization'' (''Bearer '' @ ''sk-test'')) = Inr ?resp"
    by (simp add: stub_env_def)
  have s: "StatusCode ?resp \<noteq> 200" by simp
  have f: "fmt_d 500 = ''500''" by code_simp
  from translate_status_error [OF m n d s, THEN conjunct1] f
  show ?thesis by simp
qed

text \<open>
  Claim C8. When the translation service answers 200 and the decoded body has no
  candidate, the client returns the empty string and the error \<open>no translation returned\<close>;
  and the handling of every reaction event that made this client call posts no reply: its
  effects are the fetch, those of the client call, and one log line.
\<close>

theorem translate_zero_candidates:
  assumes "json_Marshal e (requestBody targetLang text) = Inr d"
    and "http_NewRequest e ''POST'' ''https://api.openai.com/v1/chat/completions'' d = Inr rq0"
    and "client_Do e (Header_Set (Header_Set rq0 ''Content-Type'' ''application/json'')
           ''Authorization'' (''Bearer '' @ tok)) = Inr resp"
    and "StatusCode resp = 200"
    and "json_Decode e (Resp_Body resp) = Inr response"
    and "Choices response = []"
  shows "snd (translateWithOpenAI e text targetLang tok) = ('''', Some ''no translation returned'')
         \<and> (\<forall>h s r msg.
               UserID r \<noteq> ID (User (State s)) \<longrightarrow>
               flagToLang (Emoji_Name (Emoji r)) = Some targetLang \<longrightarrow>
               ChannelMessage s (ChannelID r) (MessageID r) = Inr msg \<longrightarrow>
               Msg_Content msg = text \<longrightarrow> text \<noteq> '''' \<longrightarrow>
               OpenAIToken (config h) = tok \<longrightarrow>
                 reactionAdd e h s r =
                   Call_ChannelMessage (ChannelID r) (MessageID r)
                     # fst (translateWithOpenAI e text targetLang tok)
                     @ [Log_Printf ''Error translating text: no translation returned'']
                 \<and> (\<forall>c em. Call_ChannelMessageSendEmbed c em \<notin> set (reactionAdd e h s r)))"
proof -
  let ?tr = "fst (translateWithOpenAI e text targetLang tok)"
  have t: "translateWithOpenAI e text targetLang tok = (?tr, '''', Some ''no translation returned'')"
    using translate_decoded [OF assms(1-5)] assms(6) by simp
  have c: "snd (translateWithOpenAI e text targetLang tok) = ('''', Some ''no translation returned'')"
    by (subst t) simp
  have r: "reactionAdd e h s r =
             Call_ChannelMessage (ChannelID r) (MessageID r) # ?tr
               @ [Log_Printf ''Error translating text: no translation returned'']
           \<and> (\<forall>c em. Call_ChannelMessageSendEmbed c em \<notin> set (reactionAdd e h s r))"
    if self: "UserID r \<noteq> ID (User (State s))"
      and lang: "flagToLang (Emoji_Name (Emoji r)) = Some targetLang"
      and fetch: "ChannelMessage s (ChannelID r) (MessageID r) = Inr msg"
      and content: "Msg_Content msg = text" and ne: "text \<noteq> ''''"
      and token: "OpenAIToken (config h) = tok"
    for h s r msg
  proof -
    have ne': "Msg_Content msg \<noteq> ''''" using content ne by simp
    have t': "translateWithOpenAI e (Msg_Content msg) targetLang (OpenAIToken (config h))
               = (?tr, '''', Some ''no translation returned'')"
      using t content token by simp
    have eq: "reactionAdd e h s r =
             Call_ChannelMessage (ChannelID r) (MessageID r) # ?tr
               @ [Log_Printf (''Error translating text: '' @ ''no translation returned'')]"
      by (rule reactionAdd_translate_error [OF self lang fetch ne' t'])
    have "Call_ChannelMessageSendEmbed c em \<notin> set (reactionAdd e h s r)" for c em
      using translate_no_send [of c em e "text" targetLang tok] unfolding eq by simp
    with eq show ?thesis by simp
  qed
  from c r show ?thesis by blast
qed

text \<open>A service that answers 200 with an empty list of choices.\<close>

theorem translate_zero_candidates_witness:
  "snd (translateWithOpenAI (stub_env 200 empty_body (Inr \<lparr>Choices = []\<rparr>))
          ''Hello there'' ''Spanish'' ''sk-test'')
     = ('''', Some ''no translation returned'')
   \<and> reactionAdd (stub_env 200 empty_body (Inr \<lparr>Choices = []\<rparr>)) stub_handler
        (stub_session ''Hello there'') (stub_reaction ''u1'' (flag (CHR 0xAA) (CHR 0xB8)))
      = [Call_ChannelMessage ''C'' ''M'',
         Log_Printf ''Translating text: Hello there'',
         Log_Printf ''Target language: Spanish'',
         Call_client_Do
           \<lparr>Method = ''POST'', URL = ''https://api.openai.com/v1/chat/completions'',
            Header = [''Content-Type'' \<mapsto> [''application/json''],
                      ''Authorization'' \<mapsto> [''Bearer sk-test'']],
            Body = stub_json (requestBody ''Spanish'' ''Hello there'')\<rparr>,
         Body_Decode, Body_Close,
         Log_Printf ''Error translating text: no translation returned'']"
proof -
  let ?e = "stub_env 200 empty_body (Inr \<lparr>Choices = []\<rparr>)"
  let ?s = "stub_session ''Hello there''"
  let ?r = "stub_reaction ''u1'' (flag (CHR 0xAA) (CHR 0xB8))"
  let ?msg = "\<lparr>Msg_Content = ''Hello there'',
               Msg_Author = \<lparr>ID = ''u7'', Username = ''Alice'', Avatar = ''a7'',
                             Discriminator = ''0''\<rparr>\<rparr>"
  let ?d = "stub_json (requestBody ''Spanish'' ''Hello there'')"
  let ?rq0 = "\<lparr>Method = ''POST'', URL = ''https://api.openai.com/v1/chat/completions'',
               Header = Map.empty, Body = ?d\<rparr>"
  let ?resp = "\<lparr>StatusCode = 200, Resp_Body = empty_body\<rparr>"
  let ?response = "\<lparr>Choices = []\<rparr> :: OpenAIResponse"
  have m: "json_Marshal ?e (requestBody ''Spanish'' ''Hello there'') = Inr ?d"
    by (simp add: stub_env_def stub_Marshal_def)
  have n: "http_NewRequest ?e ''POST'' ''https://api.openai.com/v1/chat/completions'' ?d = Inr ?rq0"
    by (simp add: stub_env_def stub_NewRequest_def)
  have d: "client_Do ?e (Header_Set (Header_Set ?rq0 ''Content-Type'' ''application/json'')
               ''Authorization'' (''Bearer '' @ ''sk-test'')) = Inr ?resp"
    by (simp add: stub_env_def)
  have st: "StatusCode ?resp = 200" by simp
  have dec: "json_Decode ?e (Resp_Body ?resp) = Inr ?response"
    by (simp add: stub_env_def)
  have ch: "Choices ?response = []" by simp
  note Z = translate_zero_candidates [OF m n d st dec ch]
  have 1: "UserID ?r \<noteq> ID (User (State ?s))"
    by (simp add: stub_reaction_def stub_session_def)
  have 2: "flagToLang (Emoji_Name (Emoji ?r)) = Some ''Spanish''"
    by (simp add: stub_reaction_def flagToLang_def flag_def)
  have 3: "ChannelMessage ?s (ChannelID ?r) (MessageID ?r) = Inr ?msg"
    by (simp add: stub_reaction_def stub_session_def)
  have 4: "Msg_Content ?msg = ''Hello there''" by simp
  have 5: "''Hello there'' \<noteq> ''''" by simp
  have 6: "OpenAIToken (config stub_handler) = ''sk-test''" by (simp add: stub_handler_def)
  from Z 1 2 3 4 5 6
  have E: "reactionAdd ?e stub_handler ?s ?r =
             Call_ChannelMessage (ChannelID ?r) (MessageID ?r)
               # fst (translateWithOpenAI ?e ''Hello there'' ''Spanish'' ''sk-test'')
               @ [Log_Printf ''Error translating text: no translation returned'']"
    by blast
  have tr: "fst (translateWithOpenAI ?e ''Hello there'' ''Spanish'' ''sk-test'')
      = [Log_Printf ''Translating text: Hello there'',
         Log_Printf ''Target language: Spanish'',
         Call_client_Do (Header_Set (Header_Set ?rq0 ''Content-Type'' ''application/json'')
               ''Authorization'' (''Bearer '' @ ''sk-test'')),
         Body_Decode, Body_Close]"
    by (simp add: translate_decoded [OF m n d st dec])
  have hs: "Header_Set (Header_Set ?rq0 ''Content-Type'' ''application/json'')
               ''Authorization'' (''Bearer '' @ ''sk-test'')
           = \<lparr>Method = ''POST'', URL = ''https://api.openai.com/v1/chat/completions'',
         Header = [''Content-Type'' \<mapsto> [''application/json''],
                   ''Authorization'' \<mapsto> [''Bearer sk-test'']],
         Body = ?d\<rparr>"
    by (simp add: Header_Set_def)
  have misc: "ChannelID ?r = ''C''" "MessageID ?r = ''M''"
    by (simp_all add: stub_reaction_def)
  have "reactionAdd ?e stub_handler ?s ?r
      = [Call_ChannelMessage ''C'' ''M'',
         Log_Printf ''Translating text: Hello there'',
         Log_Printf ''Target language: Spanish'',
         Call_client_Do
           \<lparr>Method = ''POST'', URL = ''https://api.openai.com/v1/chat/completions'',
            Header = [''Content-Type'' \<mapsto> [''application/json''],
                      ''Authorization'' \<mapsto> [''Bearer sk-test'']],
            Body = ?d\<rparr>,
         Body_Decode, Body_Close,
         Log_Printf ''Error translating text: no translation returned'']"
    unfolding E tr hs misc by simp
  with Z [THEN conjunct1] show ?thesis by (rule conjI)
qed

section \<open>The empty-content filter\<close>

text \<open>
  Claim C9. For a supported emoji, a reacting user other than the bot and a fetched
  message, handling stops after the fetch exactly when the content is the empty string.
  For every other content, in particular one made of whitespace only such as a single
  space, the router goes on to call the client with that content unchanged: the effects
  after the fetch start with those of this client call, whose first log line holds the
  content.
\<close>

theorem empty_filter_exact:
  assumes "UserID r \<noteq> ID (User (State s))"
    and "flagToLang (Emoji_Name (Emoji r)) = Some targetLang"
    and "ChannelMessage s (ChannelID r) (MessageID r) = Inr msg"
  shows "(reactionAdd e h s r = [Call_ChannelMessage (ChannelID r) (MessageID r)])
           = (Msg_Content msg = '''')
         \<and> (Msg_Content msg \<noteq> '''' \<longrightarrow>
              (\<exists>rest. reactionAdd e h s r =
                 Call_ChannelMessage (ChannelID r) (MessageID r)
                   # fst (translateWithOpenAI e (Msg_Content msg) targetLang (OpenAIToken (config h)))
                   @ rest)
              \<and> (\<exists>rest. reactionAdd e h s r =
                 Call_ChannelMessage (ChannelID r) (MessageID r)
                   # Log_Printf (''Translating text: '' @ Msg_Content msg)
                   # Log_Printf (''Target language: '' @ targetLang) # rest))"
proof (cases "Msg_Content msg = ''''")
  case True
  with assms show ?thesis by (simp add: reactionAdd_def)
next
  case False
  let ?t = "translateWithOpenAI e (Msg_Content msg) targetLang (OpenAIToken (config h))"
  obtain tr translation err where t: "?t = (tr, translation, err)"
    by (cases ?t) auto
  have a: "\<exists>rest. reactionAdd e h s r =
             Call_ChannelMessage (ChannelID r) (MessageID r) # fst ?t @ rest"
  proof (cases err)
    case None
    with reactionAdd_translate_ok [OF assms False] t show ?thesis by simp
  next
    case (Some x)
    with reactionAdd_translate_error [OF assms False] t show ?thesis by simp
  qed
  from translate_logs [of e "Msg_Content msg" targetLang "OpenAIToken (config h)"]
  obtain rest0 where l: "fst ?t = Log_Printf (''Translating text: '' @ Msg_Content msg)
        # Log_Printf (''Target language: '' @ targetLang) # rest0"
    by blast
  from a obtain rest1 where
    r1: "reactionAdd e h s r = Call_ChannelMessage (ChannelID r) (MessageID r) # fst ?t @ rest1"
    by blast
  have b: "\<exists>rest. reactionAdd e h s r =
             Call_ChannelMessage (ChannelID r) (MessageID r)
               # Log_Printf (''Translating text: '' @ Msg_Content msg)
               # Log_Printf (''Target language: '' @ targetLang) # rest"
    unfolding r1 l by simp
  have c: "reactionAdd e h s r \<noteq> [Call_ChannelMessage (ChannelID r) (MessageID r)]"
    unfolding r1 l by simp
  from a b c False show ?thesis by simp
qed

text \<open>A message whose content is a single space: the prompt sent ends with that space.\<close>

theorem empty_filter_exact_witness:
  "Msg_Content \<lparr>Msg_Content = '' '',
               Msg_Author = \<lparr>ID = ''u7'', Username = ''Alice'', Avatar = ''a7'',
                             Discriminator = ''0''\<rparr>\<rparr> \<noteq> ''''
   \<and> reactionAdd (stub_env 200 hola_body (Inr hola_response)) stub_handler
         (stub_session '' '') (stub_reaction ''u1'' (flag (CHR 0xAA) (CHR 0xB8)))
       \<noteq> [Call_ChannelMessage ''C'' ''M'']
   \<and> take 3 (reactionAdd (stub_env 200 hola_body (Inr hola_response)) stub_handler
         (stub_session '' '') (stub_reaction ''u1'' (flag (CHR 0xAA) (CHR 0xB8))))
       = [Call_ChannelMessage ''C'' ''M'',
          Log_Printf ''Translating text:  '',
          Log_Printf ''Target language: Spanish'']"
proof -
  let ?e = "stub_env 200 hola_body (Inr hola_response)"
  let ?s = "stub_session '' ''"
  let ?r = "stub_reaction ''u1'' (flag (CHR 0xAA) (CHR 0xB8))"
  let ?msg = "\<lparr>Msg_Content = '' '',
               Msg_Author = \<lparr>ID = ''u7'', Username = ''Alice'', Avatar = ''a7'',
                             Discriminator = ''0''\<rparr>\<rparr>"
  have 1: "UserID ?r \<noteq> ID (User (State ?s))"
    by (simp add: stub_reaction_def stub_session_def)
  have 2: "flagToLang (Emoji_Name (Emoji ?r)) = Some ''Spanish''"
    by (simp add: stub_reaction_def flagToLang_def flag_def)
  have 3: "ChannelMessage ?s (ChannelID ?r) (MessageID ?r) = Inr ?msg"
    by (simp add: stub_reaction_def stub_session_def)
  have ne: "Msg_Content ?msg \<noteq> ''''" by simp
  have misc: "ChannelID ?r = ''C''" "MessageID ?r = ''M''"
    by (simp_all add: stub_reaction_def)
  note F = empty_filter_exact [OF 1 2 3, of ?e stub_handler]
  from F ne have a: "reactionAdd ?e stub_handler ?s ?r
      \<noteq> [Call_ChannelMessage (ChannelID ?r) (MessageID ?r)]"
    by blast
  from F ne obtain rest where "reactionAdd ?e stub_handler ?s ?r =
                 Call_ChannelMessage (ChannelID ?r) (MessageID ?r)
                   # Log_Printf (''Translating text: '' @ Msg_Content ?msg)
                   # Log_Printf (''Target language: '' @ ''Spanish'') # rest"
    by blast
  then have b: "take 3 (reactionAdd ?e stub_handler ?s ?r)
       = [Call_ChannelMessage ''C'' ''M'',
          Log_Printf ''Translating text:  '',
          Log_Printf ''Target language: Spanish'']"
    by (simp add: misc)
  from ne a [unfolded misc] b show ?thesis by blast
qed

section \<open>The status check comes before decoding\<close>

text \<open>
  Claim C10. When the service answers with a status other than 200, the client returns the
  status-code error without decoding the body: the effects are the two log lines, the
  round trip and the close of the body; the error is neither a decoding error nor the
  error for zero candidates; and the outcome is the same whatever the decoder would do.
  Moreover, for every input and every behaviour of the libraries, when the client returns
  an error, the result string is empty.
\<close>

theorem status_check_before_decode:
  assumes "json_Marshal e (requestBody targetLang text) = Inr d"
    and "http_NewRequest e ''POST'' ''https://api.openai.com/v1/chat/completions'' d = Inr rq0"
    and "client_Do e (Header_Set (Header_Set rq0 ''Content-Type'' ''application/json'')
           ''Authorization'' (''Bearer '' @ tok)) = Inr resp"
    and "StatusCode resp \<noteq> 200"
  shows "translateWithOpenAI e text targetLang tok =
           ([Log_Printf (''Translating text: '' @ text),
             Log_Printf (''Target language: '' @ targetLang),
             Call_client_Do (Header_Set (Header_Set rq0 ''Content-Type'' ''application/json'')
               ''Authorization'' (''Bearer '' @ tok)),
             Body_Close],
            '''', Some (''unexpected status code: '' @ fmt_d (StatusCode resp)))
         \<and> Body_Decode \<notin> set (fst (translateWithOpenAI e text targetLang tok))
         \<and> snd (snd (translateWithOpenAI e text targetLang tok)) \<noteq> Some ''no translation returned''
         \<and> (\<forall>err. snd (snd (translateWithOpenAI e text targetLang tok))
                \<noteq> Some (''error decoding response: '' @ err))
         \<and> (\<forall>f. translateWithOpenAI (e\<lparr>json_Decode := f\<rparr>) text targetLang tok
                = translateWithOpenAI e text targetLang tok)
         \<and> (\<forall>e' text' targetLang' tok'.
               snd (snd (translateWithOpenAI e' text' targetLang' tok')) \<noteq> None \<longrightarrow>
               fst (snd (translateWithOpenAI e' text' targetLang' tok')) = '''')"
proof -
  note t = translate_non200 [OF assms]
  have a: "Body_Decode \<notin> set (fst (translateWithOpenAI e text targetLang tok))"
    unfolding t by simp
  have b: "snd (snd (translateWithOpenAI e text targetLang tok)) \<noteq> Some ''no translation returned''"
    unfolding t by simp
  have c: "snd (snd (translateWithOpenAI e text targetLang tok))
                \<noteq> Some (''error decoding response: '' @ err)" for err
    unfolding t by simp
  have d: "translateWithOpenAI (e\<lparr>json_Decode := f\<rparr>) text targetLang tok
                = translateWithOpenAI e text targetLang tok" for f
  proof -
    have m: "json_Marshal (e\<lparr>json_Decode := f\<rparr>) (requestBody targetLang text) = Inr d"
      using assms(1) by simp
    have n: "http_NewRequest (e\<lparr>json_Decode := f\<rparr>) ''POST''
               ''https://api.openai.com/v1/chat/completions'' d = Inr rq0"
      using assms(2) by simp
    have c: "client_Do (e\<lparr>json_Decode := f\<rparr>)
               (Header_Set (Header_Set rq0 ''Content-Type'' ''application/json'')
                  ''Authorization'' (''Bearer '' @ tok)) = Inr resp"
      using assms(3) by simp
    note translate_non200 [OF m n c assms(4)]
    with t show ?thesis by simp
  qed
  have g: "fst (snd (translateWithOpenAI e' text' targetLang' tok')) = ''''"
    if "snd (snd (translateWithOpenAI e' text' targetLang' tok')) \<noteq> None"
    for e' text' targetLang' tok'
    using that by (rule translate_error_empty)
  from t a b c d g show ?thesis by blast
qed

text \<open>
  A service that answers 503 with a body that is a well-formed response without
  candidates: the error is that of the status.
\<close>

theorem status_check_before_decode_witness:
  "translateWithOpenAI (stub_env 503 empty_body (Inr \<lparr>Choices = []\<rparr>))
          ''Hello there'' ''Spanish'' ''sk-test''
     = ([Log_Printf ''Translating text: Hello there'',
         Log_Printf ''Target language: Spanish'',
         Call_client_Do
           \<lparr>Method = ''POST'', URL = ''https://api.openai.com/v1/chat/completions'',
            Header = [''Content-Type'' \<mapsto> [''application/json''],
                      ''Authorization'' \<mapsto> [''Bearer sk-test'']],
            Body = stub_json (requestBody ''Spanish'' ''Hello there'')\<rparr>,
         Body_Close],
        '''', Some ''unexpected status code: 503'')"
proof -
  let ?e = "stub_env 503 empty_body (Inr \<lparr>Choices = []\<rparr>)"
  let ?d = "stub_json (requestBody ''Spanish'' ''Hello there'')"
  let ?rq0 = "\<lparr>Method = ''POST'', URL = ''https://api.openai.com/v1/chat/completions'',
               Header = Map.empty, Body = ?d\<rparr>"
  let ?resp = "\<lparr>StatusCode = 503, Resp_Body = empty_body\<rparr>"
  have m: "json_Marshal ?e (requestBody ''Spanish'' ''Hello there'') = Inr ?d"
    by (simp add: stub_env_def stub_Marshal_def)
  have n: "http_NewRequest ?e ''POST'' ''https://api.openai.com/v1/chat/completions'' ?d = Inr ?rq0"
    by (simp add: stub_env_def stub_NewRequest_def)
  have d: "client_Do ?e (Header_Set (Header_Set ?rq0 ''Content-Type'' ''application/json'')
               ''Authorization'' (''Bearer '' @ ''sk-test'')) = Inr ?resp"
    by (simp add: stub_env_def)
  have s: "StatusCode ?resp \<noteq> 200" by simp
  have f: "fmt_d 503 = ''503''" by code_simp
  have hs: "Header_Set (Header_Set ?rq0 ''Content-Type'' ''application/json'')
               ''Authorization'' (''Bearer '' @ ''sk-test'')
           = \<lparr>Method = ''POST'', URL = ''https://api.openai.com/v1/chat/completions'',
         Header = [''Content-Type'' \<mapsto> [''application/json''],
                   ''Authorization'' \<mapsto> [''Bearer sk-test'']],
         Body = ?d\<rparr>"
    by (simp add: Header_Set_def)
  have sc: "StatusCode ?resp = 503" by simp
  note T = status_check_before_decode [OF m n d s, THEN conjunct1]
  show ?thesis
    unfolding T hs sc f by simp
qed

end
